theory Spec2Isabelle
  imports Main "HOL-Library.Word" "HOL-Library.Sublist"
begin

section \<open>JavaScript strings and values\<close>

text \<open>
  The server is the module \<^verbatim>\<open>src/unnamed/part_000\<close> (qa-mcp-server 0.4.0). A JavaScript
  string is its sequence of UTF-16 code units, so a string is a list of 16-bit words;
  \<open>js\<close> writes an ASCII literal of the source as such a list. The two marks that open the
  status texts modelled here are single code units (U+2705 and U+274C). The file
  \<^verbatim>\<open>src/qaMcp.js\<close> is the earlier version 0.1.0 of the same server and is not modelled.
\<close>

type_synonym jsstring = "16 word list"

definition js :: "string \<Rightarrow> jsstring" where
  "js s = map of_char s"

text \<open>
  \<^verbatim>\<open>String.prototype.startsWith\<close> at position 0: the first \<open>length searchString\<close> code
  units are compared with \<open>searchString\<close>; a receiver that is too short gives false.
\<close>

definition startsWith :: "jsstring \<Rightarrow> jsstring \<Rightarrow> bool" where
  "startsWith s searchString = (take (length searchString) s = searchString)"

text \<open>
  \<^verbatim>\<open>String.prototype.includes\<close>: the search of \<^verbatim>\<open>StringIndexOf\<close> tries every start
  position from 0 upwards, the position \<open>length s\<close> included (where only the empty
  string is found).
\<close>

fun includes_js :: "jsstring \<Rightarrow> jsstring \<Rightarrow> bool" where
  "includes_js [] searchString = (searchString = [])"
| "includes_js (c # s) searchString =
     (startsWith (c # s) searchString \<or> includes_js s searchString)"

text \<open>
  A value that is a string, or \<^verbatim>\<open>null\<close>/\<^verbatim>\<open>undefined\<close> (\<open>None\<close>). Such a value is truthy
  when it is a non-empty string; \<open>or_js a b\<close> is \<^verbatim>\<open>a || b\<close>.
\<close>

definition truthy :: "jsstring option \<Rightarrow> bool" where
  "truthy v = (case v of None \<Rightarrow> False | Some s \<Rightarrow> s \<noteq> [])"

definition or_js :: "jsstring option \<Rightarrow> jsstring option \<Rightarrow> jsstring option" where
  "or_js a b = (if truthy a then a else b)"

text \<open>
  What \<^verbatim>\<open>res.json()\<close> resolves to. The representation of numbers (IEEE doubles in the
  source) is left open as the type parameter.
\<close>

datatype 'n json =
    JNull
  | JBool bool
  | JNumber 'n
  | JString jsstring
  | JArray "'n json list"
  | JObject "(jsstring \<times> 'n json) list"

text \<open>A thrown value: an \<^verbatim>\<open>Error\<close> object with its \<^verbatim>\<open>message\<close>.\<close>

datatype js_error = Error (message: jsstring)

text \<open>
  The result envelope \<^verbatim>\<open>{ content: [{ type: "text", text: t }] }\<close> of every tool.
\<close>

record content_block =
  c_type :: jsstring
  c_text :: jsstring

record tool_result =
  content :: "content_block list"

definition text_result :: "jsstring \<Rightarrow> tool_result" where
  "text_result t = \<lparr>content = [\<lparr>c_type = js ''text'', c_text = t\<rparr>]\<rparr>"

section \<open>The browser driver\<close>

text \<open>
  Puppeteer is not part of the program. Its objects are handles; what it answers during
  one tool call is the record \<open>driver\<close>. A promise that rejects is \<open>Inl\<close> of the error.
  The state-changing calls the program makes are recorded, oldest first, in the field
  \<open>effects\<close> of the state.
\<close>

datatype browser_handle = Browser nat

datatype page_handle = Page nat

record launch_options =
  headless :: bool
  args :: "jsstring list"

record goto_options =
  waitUntil :: jsstring
  timeout :: nat

text \<open>
  A DOM element as the in-page code reads it: \<open>innerText\<close>, \<open>type_prop\<close> and \<open>value_prop\<close>
  are the properties \<^verbatim>\<open>e.innerText\<close>, \<^verbatim>\<open>e.type\<close> and \<^verbatim>\<open>el.value\<close> (\<open>None\<close> when the element
  has no such property, as an anchor has no \<^verbatim>\<open>value\<close>), \<open>getAttribute\<close> gives \<open>None\<close> for an
  absent attribute, and \<open>node\<close> is the identity of the element.
\<close>

record element =
  node :: nat
  tagName :: jsstring
  getAttribute :: "jsstring \<Rightarrow> jsstring option"
  innerText :: "jsstring option"
  type_prop :: "jsstring option"
  value_prop :: "jsstring option"

datatype effect =
    Close browser_handle
  | Launch launch_options
  | NewPage browser_handle
  | OnResponse page_handle
  | Goto page_handle jsstring goto_options
  | Click page_handle nat

record driver =
  isConnected :: "browser_handle \<Rightarrow> bool"
  isClosed :: "page_handle \<Rightarrow> bool"
  close :: "browser_handle \<Rightarrow> js_error + unit"
  launch :: "launch_options \<Rightarrow> js_error + browser_handle"
  newPage :: "browser_handle \<Rightarrow> js_error + page_handle"
  goto :: "page_handle \<Rightarrow> jsstring \<Rightarrow> goto_options \<Rightarrow> js_error + unit"
  querySelectorAll :: "page_handle \<Rightarrow> jsstring \<Rightarrow> js_error + element list"

section \<open>The module state\<close>

record 'n log_entry =
  url :: jsstring
  status :: int
  body :: "'n json"
  time :: jsstring

text \<open>The module variables \<^verbatim>\<open>browser\<close>, \<^verbatim>\<open>page\<close> and \<^verbatim>\<open>networkLogs\<close> (\<open>None\<close> is \<^verbatim>\<open>null\<close>).\<close>

record 'n state =
  browser :: "browser_handle option"
  page :: "page_handle option"
  networkLogs :: "'n log_entry list"
  effects :: "effect list"

definition perform :: "effect list \<Rightarrow> 'n state \<Rightarrow> 'n state" where
  "perform es s = s\<lparr>effects := effects s @ es\<rparr>"

section \<open>initBrowser\<close>

definition launch_config :: launch_options where
  "launch_config =
     \<lparr>headless = False, args = [js ''--no-sandbox'', js ''--disable-setuid-sandbox'']\<rparr>"

text \<open>\<^verbatim>\<open>browser = await puppeteer.launch({...})\<close>\<close>

definition launch_browser :: "driver \<Rightarrow> 'n state \<Rightarrow> (js_error + unit) \<times> 'n state" where
  "launch_browser d s =
     (case launch d launch_config of
        Inl err \<Rightarrow> (Inl err, perform [Launch launch_config] s)
      | Inr b \<Rightarrow> (Inr (), perform [Launch launch_config] (s\<lparr>browser := Some b\<rparr>)))"

text \<open>
  Lines 17 to 23: \<^verbatim>\<open>if (!browser || !browser.isConnected()) { if (browser) await
  browser.close(); browser = await puppeteer.launch(...) }\<close>
\<close>

definition ensure_browser :: "driver \<Rightarrow> 'n state \<Rightarrow> (js_error + unit) \<times> 'n state" where
  "ensure_browser d s =
     (case browser s of
        None \<Rightarrow> launch_browser d s
      | Some b \<Rightarrow>
          if isConnected d b then (Inr (), s)
          else (case close d b of
                  Inl err \<Rightarrow> (Inl err, perform [Close b] s)
                | Inr _ \<Rightarrow> launch_browser d (perform [Close b] s)))"

text \<open>
  Lines 27 to 47: \<^verbatim>\<open>page = await browser.newPage(); page.on("response", ...)\<close>. Reading
  \<^verbatim>\<open>newPage\<close> of \<^verbatim>\<open>null\<close> would throw a TypeError; \<open>ensure_browser\<close> has run before, so
  that branch is not reached from \<open>initBrowser\<close>.
\<close>

definition open_page :: "driver \<Rightarrow> 'n state \<Rightarrow> (js_error + page_handle) \<times> 'n state" where
  "open_page d s =
     (case browser s of
        None \<Rightarrow> (Inl (Error (js ''Cannot read properties of null'')), s)
      | Some b \<Rightarrow>
          (case newPage d b of
             Inl err \<Rightarrow> (Inl err, perform [NewPage b] s)
           | Inr p \<Rightarrow> (Inr p, perform [NewPage b, OnResponse p] (s\<lparr>page := Some p\<rparr>))))"

text \<open>Lines 26 to 50: \<^verbatim>\<open>if (!page || page.isClosed()) { ... } return page\<close>\<close>

definition ensure_page :: "driver \<Rightarrow> 'n state \<Rightarrow> (js_error + page_handle) \<times> 'n state" where
  "ensure_page d s =
     (case page s of
        None \<Rightarrow> open_page d s
      | Some p \<Rightarrow> if isClosed d p then open_page d s else (Inr p, s))"

text \<open>The body of the \<^verbatim>\<open>try\<close> block: the first rejected \<^verbatim>\<open>await\<close> leaves it.\<close>

definition initBrowser_body :: "driver \<Rightarrow> 'n state \<Rightarrow> (js_error + page_handle) \<times> 'n state" where
  "initBrowser_body d s =
     (case ensure_browser d s of
        (Inl err, s1) \<Rightarrow> (Inl err, s1)
      | (Inr _, s1) \<Rightarrow> ensure_page d s1)"

text \<open>
  The \<^verbatim>\<open>catch\<close> block: \<^verbatim>\<open>browser = null; page = null; throw err\<close> (the line written
  to the error console is not modelled).
\<close>

definition initBrowser :: "driver \<Rightarrow> 'n state \<Rightarrow> (js_error + page_handle) \<times> 'n state" where
  "initBrowser d s =
     (case initBrowser_body d s of
        (Inl err, s1) \<Rightarrow> (Inl err, s1\<lparr>browser := None, page := None\<rparr>)
      | (Inr p, s1) \<Rightarrow> (Inr p, s1))"

section \<open>The response listener\<close>

text \<open>
  A response as the listener reads it: \<^verbatim>\<open>res.url()\<close>, \<^verbatim>\<open>res.status()\<close>, and what the promises
  \<^verbatim>\<open>res.json()\<close> and \<^verbatim>\<open>res.text()\<close> settle to. Both promises are taken to settle.
\<close>

record 'n response =
  res_url :: jsstring
  res_status :: int
  res_json :: "js_error + 'n json"
  res_text :: "js_error + jsstring"

text \<open>Lines 35 to 44: the nested \<^verbatim>\<open>try\<close>/\<^verbatim>\<open>catch\<close> around the two decoders.\<close>

definition decode_body :: "'n response \<Rightarrow> js_error + 'n json" where
  "decode_body res =
     (case res_json res of
        Inr v \<Rightarrow> Inr v
      | Inl _ \<Rightarrow>
          (case res_text res of
             Inr t \<Rightarrow> Inr (JString t)
           | Inl _ \<Rightarrow> Inr JNull))"

text \<open>
  Lines 30 to 47. The listener runs once per response event; \<open>s\<close> is the module state
  when its push runs and \<open>now\<close> is \<^verbatim>\<open>new Date().toISOString()\<close> at that moment.
\<close>

definition on_response :: "jsstring \<Rightarrow> 'n response \<Rightarrow> 'n state \<Rightarrow> (js_error + unit) \<times> 'n state" where
  "on_response now res s =
     (if \<not> startsWith (res_url res) (js ''http'') then (Inr (), s)
      else
        (case decode_body res of
           Inl err \<Rightarrow> (Inl err, s)
         | Inr b \<Rightarrow>
             (Inr (),
              s\<lparr>networkLogs := networkLogs s @
                   [\<lparr>url = res_url res, status = res_status res, body = b, time = now\<rparr>]\<rparr>)))"

section \<open>The tools\<close>

definition goto_config :: goto_options where
  "goto_config = \<lparr>waitUntil = js ''networkidle2'', timeout = 30000\<rparr>"

text \<open>\<^verbatim>\<open>visit_page\<close>, lines 67 to 75: \<^verbatim>\<open>initBrowser\<close> is awaited before the \<^verbatim>\<open>try\<close>.\<close>

definition visit_page :: "driver \<Rightarrow> 'n state \<Rightarrow> jsstring \<Rightarrow> (js_error + tool_result) \<times> 'n state" where
  "visit_page d s u =
     (case initBrowser d s of
        (Inl err, s1) \<Rightarrow> (Inl err, s1)
      | (Inr p, s1) \<Rightarrow>
          (case goto d p u goto_config of
             Inr _ \<Rightarrow>
               (Inr (text_result (0x2705 # js '' Visited '' @ u)),
                perform [Goto p u goto_config] s1)
           | Inl err \<Rightarrow>
               (Inr (text_result (0x274C # js '' Visit failed: '' @ message err)),
                perform [Goto p u goto_config] s1)))"

text \<open>\<^verbatim>\<open>list_elements\<close>, lines 86 to 98. The descriptor is the object built at lines 89 to 94.\<close>

record element_descriptor =
  d_tag :: jsstring
  d_type :: "jsstring option"
  d_placeholder :: "jsstring option"
  d_text :: "jsstring option"

definition descriptor :: "(jsstring \<Rightarrow> jsstring) \<Rightarrow> element \<Rightarrow> element_descriptor" where
  "descriptor toLowerCase el =
     \<lparr>d_tag = toLowerCase (tagName el),
      d_type = or_js (getAttribute el (js ''type'')) None,
      d_placeholder = or_js (getAttribute el (js ''placeholder'')) None,
      d_text = or_js (or_js (innerText el) (value_prop el)) None\<rparr>"

definition list_elements ::
  "(element_descriptor list \<Rightarrow> jsstring) \<Rightarrow> (jsstring \<Rightarrow> jsstring) \<Rightarrow> driver \<Rightarrow> 'n state \<Rightarrow>
     (js_error + tool_result) \<times> 'n state" where
  "list_elements stringify toLowerCase d s =
     (case initBrowser d s of
        (Inl err, s1) \<Rightarrow> (Inl err, s1)
      | (Inr p, s1) \<Rightarrow>
          (case querySelectorAll d p (js ''a, button, input, textarea'') of
             Inl err \<Rightarrow> (Inl err, s1)
           | Inr els \<Rightarrow>
               (Inr (text_result (stringify (map (descriptor toLowerCase) els))), s1)))"

text \<open>
  \<^verbatim>\<open>click_element\<close>, lines 109 to 125. \<open>qualifies k e\<close> is the truth value of
  \<^verbatim>\<open>(e.innerText && e.innerText.includes(k)) || (e.type && e.type === k)\<close>.
\<close>

definition qualifies :: "jsstring \<Rightarrow> element \<Rightarrow> bool" where
  "qualifies k e =
     ((truthy (innerText e) \<and> (case innerText e of None \<Rightarrow> False | Some t \<Rightarrow> includes_js t k)) \<or>
      (truthy (type_prop e) \<and> type_prop e = Some k))"

definition click_element :: "driver \<Rightarrow> 'n state \<Rightarrow> jsstring \<Rightarrow> (js_error + tool_result) \<times> 'n state" where
  "click_element d s keyword =
     (case initBrowser d s of
        (Inl err, s1) \<Rightarrow> (Inl err, s1)
      | (Inr p, s1) \<Rightarrow>
          (case querySelectorAll d p (js ''a, button, input[type=submit]'') of
             Inl err \<Rightarrow> (Inl err, s1)
           | Inr els \<Rightarrow>
               (case find (qualifies keyword) els of
                  Some el \<Rightarrow>
                    (Inr (text_result (0x2705 # js '' Clicked '' @ keyword)),
                     perform [Click p (node el)] s1)
                | None \<Rightarrow>
                    (Inr (text_result (0x274C # js '' Not Found: '' @ keyword)), s1))))"

text \<open>\<^verbatim>\<open>get_network_logs\<close>, lines 191 to 193.\<close>

definition get_network_logs :: "('n log_entry list \<Rightarrow> jsstring) \<Rightarrow> 'n state \<Rightarrow> tool_result" where
  "get_network_logs stringify s = text_result (stringify (networkLogs s))"

text \<open>\<^verbatim>\<open>check_network_request\<close>, lines 204 to 209.\<close>

definition check_network_request ::
  "('n log_entry list \<Rightarrow> jsstring) \<Rightarrow> 'n state \<Rightarrow> jsstring \<Rightarrow> tool_result" where
  "check_network_request stringify s keyword =
     (let found = filter (\<lambda>log. includes_js (url log) keyword) (networkLogs s)
      in if length found \<noteq> 0
         then text_result (stringify (networkLogs s))
         else text_result (js ''No request found for '' @ keyword))"

section \<open>The claims' own notions\<close>





text \<open>
  An element qualifies for a keyword when its text contains the keyword as a substring
  or its \<^verbatim>\<open>type\<close> attribute equals the keyword exactly.
\<close>

definition spec_qualifies :: "jsstring \<Rightarrow> element \<Rightarrow> bool" where
  "spec_qualifies k e =
     ((case innerText e of None \<Rightarrow> False | Some t \<Rightarrow> sublist k t) \<or>
      getAttribute e (js ''type'') = Some k)"

section \<open>Example inputs\<close>

text \<open>
  A driver on which every call succeeds: the browser it launches is \<open>Browser 1\<close>, the
  page it opens is \<open>Page 1\<close>, only \<open>Browser 1\<close> is connected and no page reports closed.
\<close>

definition healthy_driver :: driver where
  "healthy_driver =
     \<lparr>isConnected = (\<lambda>b. b = Browser 1),
      isClosed = (\<lambda>p. False),
      close = (\<lambda>b. Inr ()),
      launch = (\<lambda>opts. Inr (Browser 1)),
      newPage = (\<lambda>b. Inr (Page 1)),
      goto = (\<lambda>p u opts. Inr ()),
      querySelectorAll = (\<lambda>p sel. Inr [])\<rparr>"

text \<open>The state at start-up, a session on \<open>Browser 1\<close>, and one left on \<open>Browser 0\<close>.\<close>

definition fresh_session :: "int state" where
  "fresh_session = \<lparr>browser = None, page = None, networkLogs = [], effects = []\<rparr>"

definition live_session :: "int state" where
  "live_session =
     \<lparr>browser = Some (Browser 1), page = Some (Page 1), networkLogs = [], effects = []\<rparr>"

definition stale_session :: "int state" where
  "stale_session =
     \<lparr>browser = Some (Browser 0), page = Some (Page 0), networkLogs = [], effects = []\<rparr>"

definition log_of :: "string \<Rightarrow> int log_entry" where
  "log_of u = \<lparr>url = js u, status = 200, body = JNull, time = js ''t''\<rparr>"

text \<open>A response whose body is not JSON but can be read as text.\<close>

definition html_response :: "int response" where
  "html_response =
     \<lparr>res_url = js ''https://a/'', res_status = 200,
      res_json = Inl (Error (js ''Unexpected token'')), res_text = Inr (js ''<p>'')\<rparr>"

text \<open>
  An anchor with no text; a button labelled OK that has no \<^verbatim>\<open>type\<close> attribute, for which the
  browser reports the type \<^verbatim>\<open>submit\<close>; an input with an empty \<^verbatim>\<open>type\<close> attribute.
\<close>

definition anchor_without_text :: element where
  "anchor_without_text =
     \<lparr>node = 1, tagName = js ''A'', getAttribute = (\<lambda>a. None), innerText = Some [],
      type_prop = Some [], value_prop = None\<rparr>"

definition ok_button :: element where
  "ok_button =
     \<lparr>node = 2, tagName = js ''BUTTON'', getAttribute = (\<lambda>a. None),
      innerText = Some (js ''OK''), type_prop = Some (js ''submit''), value_prop = Some []\<rparr>"

definition email_input :: element where
  "email_input =
     \<lparr>node = 3, tagName = js ''INPUT'',
      getAttribute = (\<lambda>a. if a = js ''type'' then Some [] else
                           if a = js ''placeholder'' then Some (js ''Email'') else None),
      innerText = Some [], type_prop = Some (js ''text''), value_prop = Some (js ''a@b'')\<rparr>"

section \<open>Strings\<close>

lemma startsWith_prefix: "startsWith s p \<longleftrightarrow> prefix p s"
  unfolding startsWith_def
  by (metis append_eq_conv_conj prefix_def)

lemma startsWith_append: "startsWith u (p @ q) \<Longrightarrow> startsWith u p"
  by (simp add: startsWith_prefix append_prefixD)

lemma includes_js_sublist: "includes_js s k \<longleftrightarrow> sublist k s"
proof (induction s)
  case Nil
  show ?case by auto
next
  case (Cons c s)
  show ?case by (simp add: Cons.IH startsWith_prefix sublist_Cons_right)
qed

section \<open>Outcomes of initBrowser\<close>

lemmas initBrowser_defs =
  initBrowser_def initBrowser_body_def ensure_browser_def ensure_page_def open_page_def
  launch_browser_def perform_def


lemma initBrowser_failure:
  assumes "initBrowser d s = (Inl err, s1)"
  shows "page s1 = None \<and> browser s1 = None \<and> networkLogs s1 = networkLogs s"
  using assms
  by (auto simp: initBrowser_defs split: option.splits sum.splits if_splits prod.splits)

section \<open>check_network_request\<close>

text \<open>
  C1. For every keyword \<open>k\<close>: if at least one entry of the network log has a url that
  contains \<open>k\<close> as a contiguous substring, the tool returns one text block whose text is
  the serialization of the entire log (the serializer is applied to \<open>networkLogs s\<close>, not to
  the matching entries); if no entry's url contains \<open>k\<close>, it returns one text block whose
  text is the not-found message followed by \<open>k\<close>, in which no entry is serialized.
\<close>

theorem check_network_request_whole_log:
  "((\<exists>e \<in> set (networkLogs s). sublist k (url e)) \<longrightarrow>
      content (check_network_request stringify s k) =
        [\<lparr>c_type = js ''text'', c_text = stringify (networkLogs s)\<rparr>]) \<and>
   ((\<forall>e \<in> set (networkLogs s). \<not> sublist k (url e)) \<longrightarrow>
      content (check_network_request stringify s k) =
        [\<lparr>c_type = js ''text'', c_text = js ''No request found for '' @ k\<rparr>])"
  by (auto simp: check_network_request_def text_result_def Let_def filter_empty_conv
      includes_js_sublist)

text \<open>
  With a log of two entries of which only the second matches \<^verbatim>\<open>foo\<close>, both entries are
  serialized; for \<^verbatim>\<open>baz\<close> nothing is.
\<close>

theorem check_network_request_whole_log_witness:
  "content (check_network_request (\<lambda>logs. concat (map url logs))
     (live_session\<lparr>networkLogs := [log_of ''http://x/bar'', log_of ''http://x/foo'']\<rparr>)
     (js ''foo''))
     = [\<lparr>c_type = js ''text'', c_text = js ''http://x/barhttp://x/foo''\<rparr>] \<and>
   content (check_network_request (\<lambda>logs. concat (map url logs))
     (live_session\<lparr>networkLogs := [log_of ''http://x/bar'', log_of ''http://x/foo'']\<rparr>)
     (js ''baz''))
     = [\<lparr>c_type = js ''text'', c_text = js ''No request found for baz''\<rparr>]"
proof -
  let ?s = "live_session\<lparr>networkLogs := [log_of ''http://x/bar'', log_of ''http://x/foo'']\<rparr>"
  have m: "\<exists>e \<in> set (networkLogs ?s). sublist (js ''foo'') (url e)"
    by (simp add: includes_js_sublist [symmetric] log_of_def js_def startsWith_def)
  have n: "\<forall>e \<in> set (networkLogs ?s). \<not> sublist (js ''baz'') (url e)"
    by (simp add: includes_js_sublist [symmetric] log_of_def js_def startsWith_def)
  from check_network_request_whole_log [of ?s "js ''foo''" "\<lambda>logs. concat (map url logs)"] m
  have r1: "content (check_network_request (\<lambda>logs. concat (map url logs)) ?s (js ''foo'')) =
      [\<lparr>c_type = js ''text'', c_text = concat (map url (networkLogs ?s))\<rparr>]"
    by blast
  from check_network_request_whole_log [of ?s "js ''baz''" "\<lambda>logs. concat (map url logs)"] n
  have r2: "content (check_network_request (\<lambda>logs. concat (map url logs)) ?s (js ''baz'')) =
      [\<lparr>c_type = js ''text'', c_text = js ''No request found for '' @ js ''baz''\<rparr>]"
    by blast
  show ?thesis
    unfolding r1 r2 by (simp add: log_of_def js_def)
qed

section \<open>initBrowser: the stale browser\<close>

text \<open>
  C2, as the code has it. When the browser handle is present but disconnected, the stale
  handle is closed before the relaunch, and an error raised by the close step is not
  swallowed: no launch is attempted in that call, the call fails with that error and both
  references are reset to \<^verbatim>\<open>null\<close>. When the close succeeds the launch follows it, nothing
  else is closed, and a call that succeeds holds the launched browser. When the browser
  reference is \<^verbatim>\<open>null\<close> (as it is after such a failure) the launch is the first call made
  and nothing is closed at all.
\<close>

theorem initBrowser_close_error_propagates:
  "(browser s = Some b \<and> \<not> isConnected d b \<and> close d b = Inl err \<longrightarrow>
      initBrowser d s =
        (Inl err, s\<lparr>browser := None, page := None, effects := effects s @ [Close b]\<rparr>)) \<and>
   (browser s = Some b \<and> \<not> isConnected d b \<and> close d b = Inr () \<longrightarrow>
      (\<exists>rest. effects (snd (initBrowser d s)) =
                 effects s @ Close b # Launch launch_config # rest \<and>
              (\<forall>c. Close c \<notin> set rest)) \<and>
      (\<forall>b' p. launch d launch_config = Inr b' \<and> fst (initBrowser d s) = Inr p \<longrightarrow>
         browser (snd (initBrowser d s)) = Some b')) \<and>
   (browser s = None \<longrightarrow>
      (\<exists>rest. effects (snd (initBrowser d s)) = effects s @ Launch launch_config # rest \<and>
              (\<forall>c. Close c \<notin> set rest)))"
  by (auto simp: initBrowser_defs split: option.splits sum.splits if_splits prod.splits)

theorem initBrowser_close_error_propagates_witness:
  "initBrowser (healthy_driver\<lparr>close := \<lambda>b. Inl (Error (js ''boom''))\<rparr>) stale_session =
     (Inl (Error (js ''boom'')),
      stale_session\<lparr>browser := None, page := None, effects := [Close (Browser 0)]\<rparr>) \<and>
   (\<exists>rest. effects (snd (initBrowser healthy_driver stale_session)) =
              Close (Browser 0) # Launch launch_config # rest \<and>
           (\<forall>c. Close c \<notin> set rest)) \<and>
   browser (snd (initBrowser healthy_driver stale_session)) = Some (Browser 1) \<and>
   (\<exists>rest. effects (snd (initBrowser healthy_driver fresh_session)) =
              Launch launch_config # rest \<and>
           (\<forall>c. Close c \<notin> set rest))"
proof -
  let ?d = "healthy_driver\<lparr>close := \<lambda>b. Inl (Error (js ''boom''))\<rparr>"
  have a: "browser stale_session = Some (Browser 0) \<and> \<not> isConnected ?d (Browser 0) \<and>
      close ?d (Browser 0) = Inl (Error (js ''boom''))"
    by (simp add: healthy_driver_def stale_session_def)
  have b: "browser stale_session = Some (Browser 0) \<and> \<not> isConnected healthy_driver (Browser 0) \<and>
      close healthy_driver (Browser 0) = Inr ()"
    by (simp add: healthy_driver_def stale_session_def)
  have c: "browser fresh_session = None"
    by (simp add: fresh_session_def)
  have l: "launch healthy_driver launch_config = Inr (Browser 1) \<and>
      fst (initBrowser healthy_driver stale_session) = Inr (Page 0)"
    by (simp add: initBrowser_defs healthy_driver_def stale_session_def)
  from initBrowser_close_error_propagates
         [where d = ?d and s = stale_session and b = "Browser 0" and err = "Error (js ''boom'')"] a
  have r1: "initBrowser ?d stale_session =
      (Inl (Error (js ''boom'')),
       stale_session\<lparr>browser := None, page := None,
                      effects := effects stale_session @ [Close (Browser 0)]\<rparr>)"
    by blast
  from initBrowser_close_error_propagates
         [where d = healthy_driver and s = stale_session and b = "Browser 0"] b
  have r2: "\<exists>rest. effects (snd (initBrowser healthy_driver stale_session)) =
      effects stale_session @ Close (Browser 0) # Launch launch_config # rest \<and>
      (\<forall>c. Close c \<notin> set rest)"
    by blast
  from initBrowser_close_error_propagates
         [where d = healthy_driver and s = stale_session and b = "Browser 0"] b l
  have r2': "browser (snd (initBrowser healthy_driver stale_session)) = Some (Browser 1)"
    by blast
  from initBrowser_close_error_propagates [where d = healthy_driver and s = fresh_session] c
  have r3: "\<exists>rest. effects (snd (initBrowser healthy_driver fresh_session)) =
      effects fresh_session @ Launch launch_config # rest \<and> (\<forall>c. Close c \<notin> set rest)"
    by blast
  show ?thesis
    using r1 r2 r2' r3 by (simp add: stale_session_def fresh_session_def)
qed

text \<open>
  The claim as stated fails: on a driver whose every other call would succeed, a close
  that raises makes the call fail, and \<open>Close\<close> is the only call made.
\<close>

theorem initBrowser_close_error_counterexample:
  "initBrowser (healthy_driver\<lparr>close := \<lambda>b. Inl (Error (js ''boom''))\<rparr>) stale_session =
     (Inl (Error (js ''boom'')),
      stale_session\<lparr>browser := None, page := None, effects := [Close (Browser 0)]\<rparr>) \<and>
   launch (healthy_driver\<lparr>close := \<lambda>b. Inl (Error (js ''boom''))\<rparr>) launch_config =
     Inr (Browser 1) \<and>
   newPage (healthy_driver\<lparr>close := \<lambda>b. Inl (Error (js ''boom''))\<rparr>) (Browser 1) =
     Inr (Page 1)"
  by (simp add: initBrowser_defs healthy_driver_def stale_session_def)

section \<open>initBrowser: recovery\<close>

text \<open>
  C3. After the browser handle reports disconnected, the next successful call should
  hold a new browser handle and a new page handle. The code replaces the page only when
  the page reference is \<^verbatim>\<open>null\<close> or the page reports closed. Here a first call opens
  \<open>Browser 0\<close> and \<open>Page 0\<close>; the browser then reports disconnected while the page does not
  report closed; the next call launches \<open>Browser 1\<close> and returns the old \<open>Page 0\<close>, and
  \<^verbatim>\<open>visit_page\<close> navigates on it.
\<close>

theorem initBrowser_reuses_page_of_dead_browser:
  "initBrowser
     (healthy_driver\<lparr>isConnected := \<lambda>b. b = Browser 0, launch := \<lambda>opts. Inr (Browser 0),
                      newPage := \<lambda>b. Inr (Page 0)\<rparr>) fresh_session =
     (Inr (Page 0),
      stale_session\<lparr>effects :=
        [Launch launch_config, NewPage (Browser 0), OnResponse (Page 0)]\<rparr>) \<and>
   \<not> isConnected healthy_driver (Browser 0) \<and>
   \<not> isClosed healthy_driver (Page 0) \<and>
   initBrowser healthy_driver stale_session =
     (Inr (Page 0),
      stale_session\<lparr>browser := Some (Browser 1),
                     effects := [Close (Browser 0), Launch launch_config]\<rparr>) \<and>
   snd (visit_page healthy_driver stale_session (js ''http://a/'')) =
     stale_session\<lparr>browser := Some (Browser 1),
                    effects := [Close (Browser 0), Launch launch_config,
                                Goto (Page 0) (js ''http://a/'') goto_config]\<rparr>"
  by (simp add: visit_page_def initBrowser_defs healthy_driver_def stale_session_def
      fresh_session_def)

section \<open>The response listener: which responses are recorded\<close>






section \<open>initBrowser: failure\<close>

text \<open>
  C5. If \<open>initBrowser\<close> fails, both the browser reference and the page reference are
  \<^verbatim>\<open>null\<close> afterwards (and the network log is untouched); and the error of a failing launch,
  or of a failing page creation, is the error the caller receives.
\<close>

theorem initBrowser_failure_resets:
  "(initBrowser d s = (Inl err, s1) \<longrightarrow>
      browser s1 = None \<and> page s1 = None \<and> networkLogs s1 = networkLogs s) \<and>
   ((browser s = None \<or> (\<exists>b. browser s = Some b \<and> \<not> isConnected d b \<and> close d b = Inr ())) \<and>
    launch d launch_config = Inl err \<longrightarrow>
      fst (initBrowser d s) = Inl err \<and>
      browser (snd (initBrowser d s)) = None \<and> page (snd (initBrowser d s)) = None) \<and>
   (ensure_browser d s = (Inr (), s2) \<and> browser s2 = Some b \<and>
    (page s2 = None \<or> (\<exists>p. page s2 = Some p \<and> isClosed d p)) \<and> newPage d b = Inl err \<longrightarrow>
      fst (initBrowser d s) = Inl err \<and>
      browser (snd (initBrowser d s)) = None \<and> page (snd (initBrowser d s)) = None)"
proof (intro conjI impI)
  assume "initBrowser d s = (Inl err, s1)"
  then show "browser s1 = None" "page s1 = None" "networkLogs s1 = networkLogs s"
    using initBrowser_failure by blast+
next
  assume "(browser s = None \<or> (\<exists>b. browser s = Some b \<and> \<not> isConnected d b \<and> close d b = Inr ())) \<and>
    launch d launch_config = Inl err"
  then show "fst (initBrowser d s) = Inl err"
    "browser (snd (initBrowser d s)) = None" "page (snd (initBrowser d s)) = None"
    by (auto simp: initBrowser_defs)
next
  assume "ensure_browser d s = (Inr (), s2) \<and> browser s2 = Some b \<and>
    (page s2 = None \<or> (\<exists>p. page s2 = Some p \<and> isClosed d p)) \<and> newPage d b = Inl err"
  then show "fst (initBrowser d s) = Inl err"
    "browser (snd (initBrowser d s)) = None" "page (snd (initBrowser d s)) = None"
    by (auto simp: initBrowser_def initBrowser_body_def ensure_page_def open_page_def perform_def)
qed

text \<open>A launch that fails after the stale browser was closed, and a page creation that fails.\<close>

theorem initBrowser_failure_resets_witness:
  "initBrowser (healthy_driver\<lparr>launch := \<lambda>opts. Inl (Error (js ''no chrome''))\<rparr>) stale_session =
     (Inl (Error (js ''no chrome'')),
      stale_session\<lparr>browser := None, page := None,
                     effects := [Close (Browser 0), Launch launch_config]\<rparr>) \<and>
   initBrowser (healthy_driver\<lparr>newPage := \<lambda>b. Inl (Error (js ''no page''))\<rparr>) fresh_session =
     (Inl (Error (js ''no page'')),
      fresh_session\<lparr>effects := [Launch launch_config, NewPage (Browser 1)]\<rparr>)"
proof -
  let ?d1 = "healthy_driver\<lparr>launch := \<lambda>opts. Inl (Error (js ''no chrome''))\<rparr>"
  let ?d2 = "healthy_driver\<lparr>newPage := \<lambda>b. Inl (Error (js ''no page''))\<rparr>"
  let ?s2 = "fresh_session\<lparr>browser := Some (Browser 1), effects := [Launch launch_config]\<rparr>"
  have a1: "(browser stale_session = None \<or>
       (\<exists>b. browser stale_session = Some b \<and> \<not> isConnected ?d1 b \<and> close ?d1 b = Inr ())) \<and>
      launch ?d1 launch_config = Inl (Error (js ''no chrome''))"
    by (simp add: healthy_driver_def stale_session_def)
  have a2: "ensure_browser ?d2 fresh_session = (Inr (), ?s2) \<and> browser ?s2 = Some (Browser 1) \<and>
      (page ?s2 = None \<or> (\<exists>p. page ?s2 = Some p \<and> isClosed ?d2 p)) \<and>
      newPage ?d2 (Browser 1) = Inl (Error (js ''no page''))"
    by (simp add: initBrowser_defs healthy_driver_def fresh_session_def)
  from initBrowser_failure_resets
         [where d = ?d1 and s = stale_session and err = "Error (js ''no chrome'')"] a1
  have r1: "fst (initBrowser ?d1 stale_session) = Inl (Error (js ''no chrome''))"
    by blast
  from initBrowser_failure_resets
         [where d = ?d2 and s = fresh_session and err = "Error (js ''no page'')" and ?s2.0 = ?s2
            and b = "Browser 1"] a2
  have r2: "fst (initBrowser ?d2 fresh_session) = Inl (Error (js ''no page''))"
    by blast
  obtain t1 where p1: "initBrowser ?d1 stale_session = (Inl (Error (js ''no chrome'')), t1)"
    using r1 by (cases "initBrowser ?d1 stale_session") simp
  obtain t2 where p2: "initBrowser ?d2 fresh_session = (Inl (Error (js ''no page'')), t2)"
    using r2 by (cases "initBrowser ?d2 fresh_session") simp
  from initBrowser_failure_resets
         [where d = ?d1 and s = stale_session and err = "Error (js ''no chrome'')"
            and ?s1.0 = t1] p1
  have f1: "browser t1 = None \<and> page t1 = None \<and> networkLogs t1 = networkLogs stale_session"
    by blast
  from initBrowser_failure_resets
         [where d = ?d2 and s = fresh_session and err = "Error (js ''no page'')" and ?s1.0 = t2] p2
  have f2: "browser t2 = None \<and> page t2 = None \<and> networkLogs t2 = networkLogs fresh_session"
    by blast
  have e1: "effects t1 = [Close (Browser 0), Launch launch_config]"
    using p1 by (auto simp: initBrowser_defs healthy_driver_def stale_session_def)
  have e2: "effects t2 = [Launch launch_config, NewPage (Browser 1)]"
    using p2 by (auto simp: initBrowser_defs healthy_driver_def fresh_session_def)
  have "t1 = stale_session\<lparr>browser := None, page := None,
                            effects := [Close (Browser 0), Launch launch_config]\<rparr>"
    using f1 e1 by (cases t1) (simp add: stale_session_def)
  moreover have "t2 = fresh_session\<lparr>effects := [Launch launch_config, NewPage (Browser 1)]\<rparr>"
    using f2 e2 by (cases t2) (simp add: fresh_session_def)
  ultimately show ?thesis
    using p1 p2 by simp
qed

section \<open>initBrowser: the live session\<close>

text \<open>
  C6. \<open>initBrowser\<close> is idempotent on a live session: if the browser is connected and the
  page is open, the call returns the same page handle and leaves the whole state (browser
  reference, page reference, network log, and the calls made to the driver) unchanged,
  so calling it again gives the same.
\<close>

theorem initBrowser_live_idempotent:
  assumes "browser s = Some b" and "isConnected d b" and "page s = Some p" and "\<not> isClosed d p"
  shows "initBrowser d s = (Inr p, s) \<and> initBrowser d (snd (initBrowser d s)) = (Inr p, s)"
  using assms by (simp add: initBrowser_defs)

theorem initBrowser_live_idempotent_witness:
  "initBrowser healthy_driver live_session = (Inr (Page 1), live_session) \<and>
   initBrowser healthy_driver (snd (initBrowser healthy_driver live_session)) =
     (Inr (Page 1), live_session)"
  using initBrowser_live_idempotent [of live_session "Browser 1" healthy_driver "Page 1"]
  by (simp add: healthy_driver_def live_session_def)

section \<open>The response listener: decoding the body\<close>

text \<open>
  C7. For every retained response the body follows the fallback chain: the value of the
  JSON decode when that succeeds; otherwise the raw text when the text decode succeeds;
  otherwise \<^verbatim>\<open>null\<close>. The decoding never fails, the listener returns normally, and a log
  entry is appended in all three cases.
\<close>

theorem on_response_decode_fallback:
  assumes "startsWith (res_url res) (js ''http'')"
  shows "(\<exists>b. decode_body res = Inr b \<and>
            on_response now res s =
              (Inr (),
               s\<lparr>networkLogs := networkLogs s @
                    [\<lparr>url = res_url res, status = res_status res, body = b, time = now\<rparr>]\<rparr>)) \<and>
         (\<forall>v. res_json res = Inr v \<longrightarrow> decode_body res = Inr v) \<and>
         (\<forall>e t. res_json res = Inl e \<and> res_text res = Inr t \<longrightarrow>
            decode_body res = Inr (JString t)) \<and>
         (\<forall>e e'. res_json res = Inl e \<and> res_text res = Inl e' \<longrightarrow> decode_body res = Inr JNull)"
  using assms
  by (auto simp: on_response_def decode_body_def split: sum.splits)

theorem on_response_decode_fallback_witness:
  "on_response (js ''t'') (html_response\<lparr>res_json := Inr (JBool True)\<rparr>) fresh_session =
     (Inr (),
      fresh_session\<lparr>networkLogs :=
        [\<lparr>url = js ''https://a/'', status = 200, body = JBool True, time = js ''t''\<rparr>]\<rparr>) \<and>
   on_response (js ''t'') html_response fresh_session =
     (Inr (),
      fresh_session\<lparr>networkLogs :=
        [\<lparr>url = js ''https://a/'', status = 200, body = JString (js ''<p>''), time = js ''t''\<rparr>]\<rparr>) \<and>
   on_response (js ''t'') (html_response\<lparr>res_text := Inl (Error (js ''no body''))\<rparr>) fresh_session =
     (Inr (),
      fresh_session\<lparr>networkLogs :=
        [\<lparr>url = js ''https://a/'', status = 200, body = JNull, time = js ''t''\<rparr>]\<rparr>)"
proof -
  let ?r1 = "html_response\<lparr>res_json := Inr (JBool True)\<rparr>"
  let ?r3 = "html_response\<lparr>res_text := Inl (Error (js ''no body''))\<rparr>"
  have y: "startsWith (js ''https://a/'') (js ''http'')"
    by (simp add: startsWith_def js_def)
  have y1: "startsWith (res_url ?r1) (js ''http'')"
    and y2: "startsWith (res_url html_response) (js ''http'')"
    and y3: "startsWith (res_url ?r3) (js ''http'')"
    using y by (simp_all add: html_response_def)
  have c1: "on_response (js ''t'') ?r1 fresh_session =
      (Inr (), fresh_session\<lparr>networkLogs := networkLogs fresh_session @
         [\<lparr>url = res_url ?r1, status = res_status ?r1, body = JBool True, time = js ''t''\<rparr>]\<rparr>)"
    using on_response_decode_fallback [OF y1, of "js ''t''" fresh_session]
    by (auto simp: html_response_def)
  have c2: "on_response (js ''t'') html_response fresh_session =
      (Inr (), fresh_session\<lparr>networkLogs := networkLogs fresh_session @
         [\<lparr>url = res_url html_response, status = res_status html_response,
           body = JString (js ''<p>''), time = js ''t''\<rparr>]\<rparr>)"
    using on_response_decode_fallback [OF y2, of "js ''t''" fresh_session]
    by (auto simp: html_response_def)
  have c3: "on_response (js ''t'') ?r3 fresh_session =
      (Inr (), fresh_session\<lparr>networkLogs := networkLogs fresh_session @
         [\<lparr>url = res_url ?r3, status = res_status ?r3, body = JNull, time = js ''t''\<rparr>]\<rparr>)"
    using on_response_decode_fallback [OF y3, of "js ''t''" fresh_session]
    by (auto simp: html_response_def)
  show ?thesis
    unfolding c1 c2 c3 by (simp add: html_response_def fresh_session_def)
qed

section \<open>visit_page\<close>






section \<open>click_element\<close>

text \<open>
  C9, as the code has it. An element qualifies for the keyword \<open>k\<close> when its text is
  non-empty and contains \<open>k\<close> as a substring of code units (so case-sensitively), or when \<open>k\<close>
  is non-empty and the element's \<^verbatim>\<open>type\<close> property (not its \<^verbatim>\<open>type\<close> attribute) equals \<open>k\<close>
  exactly. \<^verbatim>\<open>click_element\<close> clicks exactly the first qualifying element, in the order of the
  list the selector \<^verbatim>\<open>a, button, input[type=submit]\<close> returns, and returns the found text;
  if no element qualifies, nothing is clicked and the not-found text is returned. For a
  non-empty keyword and an element whose \<^verbatim>\<open>type\<close> property equals the keyword exactly when its
  \<^verbatim>\<open>type\<close> attribute does, this is the condition of the claim.
\<close>

theorem click_element_first_match:
  assumes "initBrowser d s = (Inr p, s1)"
    and "querySelectorAll d p (js ''a, button, input[type=submit]'') = Inr els"
  shows "(\<forall>e. qualifies k e \<longleftrightarrow>
            (\<exists>t. innerText e = Some t \<and> t \<noteq> [] \<and> sublist k t) \<or>
            (k \<noteq> [] \<and> type_prop e = Some k)) \<and>
         (\<forall>e. k \<noteq> [] \<and> (type_prop e = Some k \<longleftrightarrow> getAttribute e (js ''type'') = Some k) \<longrightarrow>
            (qualifies k e \<longleftrightarrow> spec_qualifies k e)) \<and>
         (\<forall>i < length els. qualifies k (els ! i) \<and> (\<forall>j < i. \<not> qualifies k (els ! j)) \<longrightarrow>
            click_element d s k =
              (Inr \<lparr>content = [\<lparr>c_type = js ''text'',
                                 c_text = 0x2705 # js '' Clicked '' @ k\<rparr>]\<rparr>,
               s1\<lparr>effects := effects s1 @ [Click p (node (els ! i))]\<rparr>)) \<and>
         ((\<forall>e \<in> set els. \<not> qualifies k e) \<longrightarrow>
            click_element d s k =
              (Inr \<lparr>content = [\<lparr>c_type = js ''text'',
                                 c_text = 0x274C # js '' Not Found: '' @ k\<rparr>]\<rparr>,
               s1))"
proof (intro conjI allI impI)
  fix e
  show "qualifies k e \<longleftrightarrow>
          (\<exists>t. innerText e = Some t \<and> t \<noteq> [] \<and> sublist k t) \<or> (k \<noteq> [] \<and> type_prop e = Some k)"
    by (auto simp: qualifies_def truthy_def includes_js_sublist split: option.splits)
next
  fix e :: element
  assume "k \<noteq> [] \<and> (type_prop e = Some k \<longleftrightarrow> getAttribute e (js ''type'') = Some k)"
  then show "qualifies k e \<longleftrightarrow> spec_qualifies k e"
    by (auto simp: qualifies_def spec_qualifies_def truthy_def includes_js_sublist
        split: option.splits)
next
  fix i
  assume i: "i < length els"
    and q: "qualifies k (els ! i) \<and> (\<forall>j < i. \<not> qualifies k (els ! j))"
  then have "find (qualifies k) els = Some (els ! i)"
    unfolding find_Some_iff by blast
  then show "click_element d s k =
      (Inr \<lparr>content = [\<lparr>c_type = js ''text'', c_text = 0x2705 # js '' Clicked '' @ k\<rparr>]\<rparr>,
       s1\<lparr>effects := effects s1 @ [Click p (node (els ! i))]\<rparr>)"
    using assms by (simp add: click_element_def text_result_def perform_def)
next
  assume "\<forall>e \<in> set els. \<not> qualifies k e"
  then have "find (qualifies k) els = None"
    unfolding find_None_iff by blast
  then show "click_element d s k =
      (Inr \<lparr>content = [\<lparr>c_type = js ''text'', c_text = 0x274C # js '' Not Found: '' @ k\<rparr>]\<rparr>,
       s1)"
    using assms by (simp add: click_element_def text_result_def)
qed

text \<open>
  Of an anchor without text and two OK buttons, the keyword \<^verbatim>\<open>OK\<close> clicks the first button
  only; the keyword \<^verbatim>\<open>ok\<close> clicks nothing.
\<close>

theorem click_element_first_match_witness:
  "click_element
     (healthy_driver\<lparr>querySelectorAll :=
        \<lambda>p sel. Inr [anchor_without_text, ok_button, ok_button\<lparr>node := 5\<rparr>]\<rparr>)
     live_session (js ''OK'') =
     (Inr \<lparr>content = [\<lparr>c_type = js ''text'', c_text = 0x2705 # js '' Clicked OK''\<rparr>]\<rparr>,
      live_session\<lparr>effects := [Click (Page 1) 2]\<rparr>) \<and>
   click_element
     (healthy_driver\<lparr>querySelectorAll :=
        \<lambda>p sel. Inr [anchor_without_text, ok_button, ok_button\<lparr>node := 5\<rparr>]\<rparr>)
     live_session (js ''ok'') =
     (Inr \<lparr>content = [\<lparr>c_type = js ''text'', c_text = 0x274C # js '' Not Found: ok''\<rparr>]\<rparr>,
      live_session) \<and>
   qualifies (js ''OK'') ok_button \<and> spec_qualifies (js ''OK'') ok_button"
proof -
  let ?els = "[anchor_without_text, ok_button, ok_button\<lparr>node := 5\<rparr>]"
  let ?d = "healthy_driver\<lparr>querySelectorAll := \<lambda>p sel. Inr ?els\<rparr>"
  have i: "initBrowser ?d live_session = (Inr (Page 1), live_session)"
    by (simp add: initBrowser_defs healthy_driver_def live_session_def)
  have q: "querySelectorAll ?d (Page 1) (js ''a, button, input[type=submit]'') = Inr ?els"
    by simp
  have q0: "\<not> qualifies (js ''OK'') anchor_without_text"
    by (simp add: qualifies_def truthy_def anchor_without_text_def js_def)
  have q1: "qualifies (js ''OK'') ok_button"
    by (simp add: qualifies_def truthy_def ok_button_def js_def startsWith_def)
  have n: "\<forall>e \<in> set ?els. \<not> qualifies (js ''ok'') e"
    by (simp add: qualifies_def truthy_def anchor_without_text_def ok_button_def js_def
        startsWith_def)
  have first: "qualifies (js ''OK'') (?els ! 1) \<and> (\<forall>j < 1. \<not> qualifies (js ''OK'') (?els ! j))"
    using q0 q1 by simp
  have len: "1 < length ?els"
    by simp
  have same: "js ''OK'' \<noteq> [] \<and>
      (type_prop ok_button = Some (js ''OK'') \<longleftrightarrow>
       getAttribute ok_button (js ''type'') = Some (js ''OK''))"
    by (simp add: ok_button_def js_def)
  note t = click_element_first_match [OF i q, of "js ''OK''"]
  have r1: "click_element ?d live_session (js ''OK'') =
      (Inr \<lparr>content = [\<lparr>c_type = js ''text'',
                         c_text = 0x2705 # js '' Clicked '' @ js ''OK''\<rparr>]\<rparr>,
       live_session\<lparr>effects := effects live_session @ [Click (Page 1) (node (?els ! 1))]\<rparr>)"
    by (rule t [THEN conjunct2, THEN conjunct2, THEN conjunct1, rule_format, OF len first])
  have r0: "qualifies (js ''OK'') ok_button \<longleftrightarrow> spec_qualifies (js ''OK'') ok_button"
    by (rule t [THEN conjunct2, THEN conjunct1, rule_format, OF same])
  from click_element_first_match [OF i q, of "js ''ok''"] n
  have r2: "click_element ?d live_session (js ''ok'') =
      (Inr \<lparr>content = [\<lparr>c_type = js ''text'',
                         c_text = 0x274C # js '' Not Found: '' @ js ''ok''\<rparr>]\<rparr>,
       live_session)"
    by blast
  show ?thesis
    unfolding r1 r2 using q1 r0 by (simp add: live_session_def ok_button_def js_def)
qed

text \<open>
  The claim as stated fails twice. For the empty keyword every text contains it, so the
  first element in document order qualifies by the claim's condition (node 1, the anchor
  without text), and the code clicks node 2. For the keyword \<^verbatim>\<open>submit\<close> no element qualifies
  by the claim's condition (no text contains it and no element has a \<^verbatim>\<open>type\<close> attribute),
  and the code clicks the button, whose \<^verbatim>\<open>type\<close> property is \<^verbatim>\<open>submit\<close>.
\<close>

theorem click_element_empty_keyword_counterexample:
  "find (spec_qualifies []) [anchor_without_text, ok_button] = Some anchor_without_text \<and>
   node anchor_without_text = 1 \<and>
   click_element
     (healthy_driver\<lparr>querySelectorAll := \<lambda>p sel. Inr [anchor_without_text, ok_button]\<rparr>)
     live_session [] =
     (Inr \<lparr>content = [\<lparr>c_type = js ''text'', c_text = 0x2705 # js '' Clicked ''\<rparr>]\<rparr>,
      live_session\<lparr>effects := [Click (Page 1) 2]\<rparr>) \<and>
   find (spec_qualifies (js ''submit'')) [anchor_without_text, ok_button] = None \<and>
   click_element
     (healthy_driver\<lparr>querySelectorAll := \<lambda>p sel. Inr [anchor_without_text, ok_button]\<rparr>)
     live_session (js ''submit'') =
     (Inr \<lparr>content = [\<lparr>c_type = js ''text'', c_text = 0x2705 # js '' Clicked submit''\<rparr>]\<rparr>,
      live_session\<lparr>effects := [Click (Page 1) 2]\<rparr>)"
  by (simp add: spec_qualifies_def click_element_def qualifies_def truthy_def initBrowser_defs
      text_result_def healthy_driver_def live_session_def anchor_without_text_def ok_button_def
      js_def startsWith_def includes_js_sublist [symmetric])

section \<open>list_elements\<close>

text \<open>
  C10. In every descriptor that \<^verbatim>\<open>list_elements\<close> serializes, the type and the placeholder
  are the attribute when the attribute is present and non-empty and \<^verbatim>\<open>null\<close> otherwise (so
  an attribute equal to the empty string yields \<^verbatim>\<open>null\<close>); the text is the \<^verbatim>\<open>innerText\<close> when
  that is a non-empty string, otherwise the \<^verbatim>\<open>value\<close> when that is a non-empty string,
  otherwise \<^verbatim>\<open>null\<close>; none of the three fields is ever the empty string.
\<close>

theorem list_elements_normalizes_empty:
  "d_type (descriptor lc el) =
     (if \<exists>a. getAttribute el (js ''type'') = Some a \<and> a \<noteq> []
      then getAttribute el (js ''type'') else None) \<and>
   d_placeholder (descriptor lc el) =
     (if \<exists>a. getAttribute el (js ''placeholder'') = Some a \<and> a \<noteq> []
      then getAttribute el (js ''placeholder'') else None) \<and>
   d_text (descriptor lc el) =
     (if \<exists>t. innerText el = Some t \<and> t \<noteq> [] then innerText el
      else if \<exists>v. value_prop el = Some v \<and> v \<noteq> [] then value_prop el
      else None) \<and>
   d_type (descriptor lc el) \<noteq> Some [] \<and>
   d_placeholder (descriptor lc el) \<noteq> Some [] \<and>
   d_text (descriptor lc el) \<noteq> Some [] \<and>
   (initBrowser d s = (Inr p, s1) \<and>
    querySelectorAll d p (js ''a, button, input, textarea'') = Inr els \<longrightarrow>
      list_elements stringify lc d s =
        (Inr (text_result (stringify (map (descriptor lc) els))), s1))"
  by (auto simp: descriptor_def or_js_def truthy_def list_elements_def split: option.splits)

theorem list_elements_normalizes_empty_witness:
  "descriptor id email_input =
     \<lparr>d_tag = js ''INPUT'', d_type = None, d_placeholder = Some (js ''Email''),
      d_text = Some (js ''a@b'')\<rparr> \<and>
   descriptor id anchor_without_text =
     \<lparr>d_tag = js ''A'', d_type = None, d_placeholder = None, d_text = None\<rparr> \<and>
   list_elements (\<lambda>ds. concat (map d_tag ds)) id
     (healthy_driver\<lparr>querySelectorAll := \<lambda>p sel. Inr [anchor_without_text, email_input]\<rparr>)
     live_session =
     (Inr (text_result (js ''AINPUT'')), live_session)"
proof -
  let ?els = "[anchor_without_text, email_input]"
  let ?d = "healthy_driver\<lparr>querySelectorAll := \<lambda>p sel. Inr ?els\<rparr>"
  have i: "initBrowser ?d live_session = (Inr (Page 1), live_session)"
    by (simp add: initBrowser_defs healthy_driver_def live_session_def)
  have q: "querySelectorAll ?d (Page 1) (js ''a, button, input, textarea'') = Inr ?els"
    by simp
  have t1: "d_tag (descriptor id email_input) = js ''INPUT''"
    and t2: "d_tag (descriptor id anchor_without_text) = js ''A''"
    by (simp_all add: descriptor_def email_input_def anchor_without_text_def)
  note e = list_elements_normalizes_empty
             [where lc = id and el = email_input and d = ?d and s = live_session
                and p = "Page 1" and ?s1.0 = live_session and els = ?els
                and stringify = "\<lambda>ds. concat (map d_tag ds)"]
  note a = list_elements_normalizes_empty
             [where lc = id and el = anchor_without_text and d = ?d and s = live_session
                and p = "Page 1" and ?s1.0 = live_session and els = ?els
                and stringify = "\<lambda>ds. concat (map d_tag ds)"]
  have r1: "descriptor id email_input =
      \<lparr>d_tag = js ''INPUT'', d_type = None, d_placeholder = Some (js ''Email''),
       d_text = Some (js ''a@b'')\<rparr>"
    using e t1 by (cases "descriptor id email_input") (simp add: email_input_def js_def)
  have r2: "descriptor id anchor_without_text =
      \<lparr>d_tag = js ''A'', d_type = None, d_placeholder = None, d_text = None\<rparr>"
    using a t2 by (cases "descriptor id anchor_without_text") (simp add: anchor_without_text_def)
  have r3: "list_elements (\<lambda>ds. concat (map d_tag ds)) id ?d live_session =
      (Inr (text_result (concat (map d_tag (map (descriptor id) ?els)))), live_session)"
    using e i q by blast
  show ?thesis
    unfolding r3 using r1 r2 by (simp add: js_def)
qed

end
